theory Spec2Isabelle
  imports Complex_Main
begin

section \<open>Values of the Go runtime and library\<close>

subsection \<open>float64\<close>

text \<open>
  A float64 is a NaN, one of the two infinities, or a finite number. Every finite float64
  is a rational, so the finite values are carried by \<open>rat\<close>: the model has every float64
  (and more finite values than the machine has), and a statement proved for every value
  of the model holds for every float64. Both zeros are the one value \<open>Num 0\<close>; they compare
  equal in Go.
\<close>

datatype float64 = Num rat | PosInf | NegInf | NaN

text \<open>Go's \<^verbatim>\<open><\<close> on float64 (IEEE 754): false as soon as one side is a NaN.\<close>

fun flt :: "float64 \<Rightarrow> float64 \<Rightarrow> bool" where
  "flt NaN y = False"
| "flt x NaN = False"
| "flt (Num a) (Num b) = (a < b)"
| "flt (Num a) PosInf = True"
| "flt NegInf (Num b) = True"
| "flt NegInf PosInf = True"
| "flt x y = False"

text \<open>Go's \<^verbatim>\<open><=\<close> on float64, used to state the bands of the comfort category.\<close>

fun fle :: "float64 \<Rightarrow> float64 \<Rightarrow> bool" where
  "fle NaN y = False"
| "fle x NaN = False"
| "fle (Num a) (Num b) = (a \<le> b)"
| "fle NegInf y = True"
| "fle x PosInf = True"
| "fle x y = False"

subsection \<open>Errors and panics\<close>

text \<open>A Go \<^verbatim>\<open>error\<close> value, with the text its \<^verbatim>\<open>Error()\<close> method returns.\<close>

datatype error = Err string

fun Error :: "error \<Rightarrow> string" where
  "Error (Err msg) = msg"

text \<open>A Go call either returns or panics (a run-time error such as an index out of range).\<close>

datatype 'a outcome = Returns 'a | Panics string

text \<open>\<^verbatim>\<open>xs[i]\<close> on a slice: the run-time panics when the index is out of range.\<close>

definition index :: "'a list \<Rightarrow> nat \<Rightarrow> 'a outcome" where
  "index xs i = (if i < length xs then Returns (xs ! i) else Panics ''index out of range'')"

subsection \<open>strconv.Itoa\<close>

fun Itoa_nat :: "nat \<Rightarrow> string" where
  "Itoa_nat n =
     (if n < 10 then [''0123456789'' ! n]
      else Itoa_nat (n div 10) @ [''0123456789'' ! (n mod 10)])"

declare Itoa_nat.simps [simp del]

definition Itoa :: "int \<Rightarrow> string" where
  "Itoa i = (if i < 0 then CHR ''-'' # Itoa_nat (nat (- i)) else Itoa_nat (nat i))"

subsection \<open>Contexts with a deadline\<close>

text \<open>
  A \<^verbatim>\<open>context.Context\<close>, as far as the handler uses it: the deadline it carries, if any,
  as a time in nanoseconds. \<^verbatim>\<open>context.WithTimeout(parent, d)\<close> called at time \<open>now\<close> is
  \<^verbatim>\<open>WithDeadline(parent, now + d)\<close>, which keeps the parent's deadline when that one is earlier.
\<close>

record "context" =
  deadline :: "nat option"

definition WithTimeout :: "context \<Rightarrow> nat \<Rightarrow> nat \<Rightarrow> context" where
  "WithTimeout parent now d =
     (case deadline parent of
        Some cur \<Rightarrow> if cur < now + d then parent else \<lparr>deadline = Some (now + d)\<rparr>
      | None \<Rightarrow> \<lparr>deadline = Some (now + d)\<rparr>)"

definition Second :: nat where
  "Second = 1000000000"

subsection \<open>Inbound requests and the response writer\<close>

text \<open>
  \<^verbatim>\<open>http.Header\<close> and \<^verbatim>\<open>url.Values\<close> are both \<^verbatim>\<open>map[string][]string\<close>; their \<^verbatim>\<open>Get\<close>
  returns the first value stored under the key, and the empty string when there is none.
\<close>

type_synonym Values = "string \<rightharpoonup> string list"

definition Get :: "Values \<Rightarrow> string \<Rightarrow> string" where
  "Get h key = (case h key of None \<Rightarrow> [] | Some [] \<Rightarrow> [] | Some (v # vs) \<Rightarrow> v)"

record request =
  Method :: string
  Path :: string
  Header :: "Values"
  Query :: "Values"
  Context :: "context"

text \<open>
  The \<^verbatim>\<open>http.ResponseWriter\<close>: the status line once it has been written, the header map
  and the bytes written to the body.
\<close>

record ResponseWriter =
  status :: "nat option"
  headers :: "string \<rightharpoonup> string"
  body :: string

definition NewWriter :: ResponseWriter where
  "NewWriter = \<lparr>status = None, headers = Map.empty, body = []\<rparr>"

definition WriteHeader :: "ResponseWriter \<Rightarrow> nat \<Rightarrow> ResponseWriter" where
  "WriteHeader w code = (case status w of None \<Rightarrow> w\<lparr>status := Some code\<rparr> | Some c \<Rightarrow> w)"

text \<open>\<^verbatim>\<open>w.Write(b)\<close>: writes the status 200 first when no status has been written.\<close>

definition Write :: "ResponseWriter \<Rightarrow> string \<Rightarrow> ResponseWriter" where
  "Write w b = (let w' = WriteHeader w 200 in w'\<lparr>body := body w' @ b\<rparr>)"

text \<open>
  \<^verbatim>\<open>http.Error(w, msg, code)\<close>: drops Content-Length, sets the plain-text content type,
  writes the status and then the message followed by a newline.
\<close>

definition http_Error :: "ResponseWriter \<Rightarrow> string \<Rightarrow> nat \<Rightarrow> ResponseWriter" where
  "http_Error w msg code =
     Write (WriteHeader
       (w\<lparr>headers := ((headers w)(''Content-Length'' := None))
            (''Content-Type'' \<mapsto> ''text/plain; charset=utf-8'',
             ''X-Content-Type-Options'' \<mapsto> ''nosniff'')\<rparr>) code)
       (msg @ [CHR 0x0A])"

definition StatusOK :: nat where "StatusOK = 200"
definition StatusBadRequest :: nat where "StatusBadRequest = 400"
definition StatusNotFound :: nat where "StatusNotFound = 404"
definition StatusMethodNotAllowed :: nat where "StatusMethodNotAllowed = 405"
definition StatusNotAcceptable :: nat where "StatusNotAcceptable = 406"
definition StatusInternalServerError :: nat where "StatusInternalServerError = 500"

subsection \<open>The upstream client and the library calls of the handler\<close>

text \<open>
  What \<^verbatim>\<open>client.Do\<close> gives back: the status code and the outcome of reading the whole
  body with \<^verbatim>\<open>io.ReadAll\<close> (the bytes, or the read error).
\<close>

record response =
  StatusCode :: int
  Body :: "error + string"

text \<open>
  The \<^verbatim>\<open>http.Client\<close>: the answer to a GET, which may depend on how many outbound calls
  the request has made before, on the context the call carries and on the URL.
\<close>

type_synonym client = "nat \<Rightarrow> context \<Rightarrow> string \<Rightarrow> error + response"

record Server =
  Client :: client

text \<open>One period of the forecast payload.\<close>

record period =
  Temperature :: float64
  ShortForecast :: string

text \<open>
  The library functions the package calls and does not define:
  \<^item> \<^verbatim>\<open>strconv.ParseFloat(s, 64)\<close>;
  \<^item> \<^verbatim>\<open>fmt.Sprintf("%f", x)\<close>;
  \<^item> \<^verbatim>\<open>http.NewRequestWithContext\<close>, by the error it returns for a URL, if any;
  \<^item> \<^verbatim>\<open>json.Unmarshal\<close> into the points payload, by the value of its one field
    \<^verbatim>\<open>ForecastEndpoint\<close> (a key "forecast" that is missing leaves the field at its zero
    value, the empty string);
  \<^item> \<^verbatim>\<open>json.Unmarshal\<close> into the forecast payload, by the value of its one field
    \<^verbatim>\<open>Periods\<close>.
\<close>

record lib =
  ParseFloat :: "string \<Rightarrow> error + float64"
  Sprintf_f :: "float64 \<Rightarrow> string"
  NewRequestWithContext :: "string \<Rightarrow> error option"
  Unmarshal_points :: "string \<Rightarrow> error + string"
  Unmarshal_forecast :: "string \<Rightarrow> error + period list"

text \<open>An outbound call, as the log of the request keeps it: its context and its URL.\<close>

type_synonym call = "context \<times> string"

section \<open>Package weatherserver\<close>

definition httpGet ::
  "lib \<Rightarrow> context \<Rightarrow> client \<Rightarrow> string \<Rightarrow> (string \<Rightarrow> error + 'a) \<Rightarrow> call list
     \<Rightarrow> (error + 'a) \<times> call list" where
  "httpGet L ctx client url unmarshal calls =
     (case NewRequestWithContext L url of
        Some err \<Rightarrow> (Inl err, calls)
      | None \<Rightarrow>
          (let calls' = calls @ [(ctx, url)] in
           case client (length calls) ctx url of
             Inl err \<Rightarrow> (Inl err, calls')
           | Inr response \<Rightarrow>
               if StatusCode response \<noteq> 200
               then (Inl (Err (''unexpected status code: '' @ Itoa (StatusCode response))), calls')
               else (case Body response of
                       Inl err \<Rightarrow> (Inl (Err (''failed to read body: '' @ Error err)), calls')
                     | Inr bytes \<Rightarrow>
                         (case unmarshal bytes of
                            Inl err \<Rightarrow>
                              (Inl (Err (''failed to unmarshal body: '' @ Error err)), calls')
                          | Inr target \<Rightarrow> (Inr target, calls')))))"

definition acceptedTypes :: "string \<rightharpoonup> unit" where
  "acceptedTypes = [''*/*'' \<mapsto> (), ''text/*'' \<mapsto> (), ''text/plain'' \<mapsto> ()]"

text \<open>
  \<open>validRequest\<close> returns the writer and, when the request is valid, the latitude and the
  longitude; \<open>None\<close> is the source's \<^verbatim>\<open>valid = false\<close>.
\<close>

definition validRequest ::
  "lib \<Rightarrow> ResponseWriter \<Rightarrow> request \<Rightarrow> ResponseWriter \<times> (float64 \<times> float64) option" where
  "validRequest L writer request =
     (if Method request \<noteq> ''GET''
      then (http_Error writer ''only GET allowed'' StatusMethodNotAllowed, None)
      else if Path request \<noteq> ''/weather''
      then (http_Error writer ''only /weather allowed'' StatusNotFound, None)
      else
        (let accept = Get (Header request) ''Accept'' in
         if acceptedTypes accept = None
         then (http_Error writer ''must accept text/plain'' StatusNotAcceptable, None)
         else
           (let latitudeString = Get (Query request) ''lat'';
                longitudeString = Get (Query request) ''lon'' in
            if latitudeString = [] \<or> longitudeString = []
            then (http_Error writer ''query params 'lat' and 'lon' are required''
                    StatusBadRequest, None)
            else
              (case ParseFloat L latitudeString of
                 Inl err \<Rightarrow>
                   (http_Error writer (''invalid 'lat' query param: '' @ Error err)
                      StatusBadRequest, None)
               | Inr latitude \<Rightarrow>
                   (case ParseFloat L longitudeString of
                      Inl err \<Rightarrow>
                        (http_Error writer (''invalid 'lon' query param: '' @ Error err)
                           StatusBadRequest, None)
                    | Inr longitude \<Rightarrow> (writer, Some (latitude, longitude)))))))"

definition forcastGrid ::
  "lib \<Rightarrow> context \<Rightarrow> client \<Rightarrow> float64 \<Rightarrow> float64 \<Rightarrow> call list
     \<Rightarrow> (error + string) \<times> call list" where
  "forcastGrid L ctx client lat lon calls =
     (case httpGet L ctx client
             (''https://api.weather.gov/points/'' @ Sprintf_f L lat @ '','' @ Sprintf_f L lon)
             (Unmarshal_points L) calls of
        (Inl err, calls') \<Rightarrow> (Inl err, calls')
      | (Inr ForecastEndpoint, calls') \<Rightarrow> (Inr ForecastEndpoint, calls'))"

definition tempratureAnalog :: "float64 \<Rightarrow> string" where
  "tempratureAnalog t =
     (if flt t (Num 40) then ''cold''
      else if flt t (Num 80) then ''moderate''
      else ''hot'')"

definition forecastGet ::
  "lib \<Rightarrow> context \<Rightarrow> client \<Rightarrow> string \<Rightarrow> call list
     \<Rightarrow> (error + string \<times> string) outcome \<times> call list" where
  "forecastGet L ctx client endpoint calls =
     (case httpGet L ctx client endpoint (Unmarshal_forecast L) calls of
        (Inl err, calls') \<Rightarrow> (Returns (Inl err), calls')
      | (Inr Periods, calls') \<Rightarrow>
          if length Periods = 0 then (Returns (Inl (Err ''no periods found'')), calls')
          else (case index Periods 0 of
                  Panics p \<Rightarrow> (Panics p, calls')
                | Returns p0 \<Rightarrow>
                    (case index Periods 0 of
                       Panics p \<Rightarrow> (Panics p, calls')
                     | Returns p0' \<Rightarrow>
                         (Returns (Inr (ShortForecast p0, tempratureAnalog (Temperature p0'))),
                          calls'))))"

text \<open>
  \<open>ServeHTTP\<close> at clock reading \<open>now\<close>: the writer after the handler, and the outbound
  calls the request made, in order. A panic of the handler leaves the writer as it was.
\<close>

definition ServeHTTP ::
  "lib \<Rightarrow> Server \<Rightarrow> nat \<Rightarrow> ResponseWriter \<Rightarrow> request \<Rightarrow> ResponseWriter outcome \<times> call list" where
  "ServeHTTP L s now writer request =
     (let ctx = WithTimeout (Context request) now (2 * Second) in
      case validRequest L writer request of
        (writer', None) \<Rightarrow> (Returns writer', [])
      | (writer', Some (lat, lon)) \<Rightarrow>
          (case forcastGrid L ctx (Client s) lat lon [] of
             (Inl err, calls) \<Rightarrow>
               (Returns (http_Error writer' (''failed to fetch weather.gov points: '' @ Error err)
                           StatusInternalServerError), calls)
           | (Inr forecastEndpoint, calls) \<Rightarrow>
               (case forecastGet L ctx (Client s) forecastEndpoint calls of
                  (Panics p, calls') \<Rightarrow> (Panics p, calls')
                | (Returns (Inl err), calls') \<Rightarrow>
                    (Returns (http_Error writer'
                       (''failed to fetch weather.gov forecast/temprature: '' @ Error err)
                       StatusInternalServerError), calls')
                | (Returns (Inr (weather, temprature)), calls') \<Rightarrow>
                    (let response = weather @ '', '' @ temprature @ [CHR 0x0A];
                         writer1 = writer'\<lparr>headers := (headers writer')
                                     (''Content-Type'' \<mapsto> ''text/plain'')\<rparr>;
                         writer2 = writer1\<lparr>headers := (headers writer1)
                                     (''Content-Length'' \<mapsto> Itoa (int (length response)))\<rparr>
                     in (Returns (Write writer2 response), calls')))))"

section \<open>Package main: the listener and its mutex\<close>

text \<open>
  The two package variables: the listener (a handle, or nil) and \<open>listnerMutext\<close> (held or
  not), and the list of the handles that have been closed. \<open>Lock\<close> on a held mutex
  blocks: run alone, the call never returns, which is \<open>None\<close>.
\<close>

record lifecycle =
  listener :: "nat option"
  listnerMutext :: bool
  closed :: "nat list"

definition Lock :: "lifecycle \<Rightarrow> lifecycle option" where
  "Lock st = (if listnerMutext st then None else Some (st\<lparr>listnerMutext := True\<rparr>))"

definition Unlock :: "lifecycle \<Rightarrow> lifecycle" where
  "Unlock st = st\<lparr>listnerMutext := False\<rparr>"

definition stopServer :: "lifecycle \<Rightarrow> lifecycle option" where
  "stopServer st =
     (case Lock st of
        None \<Rightarrow> None
      | Some st1 \<Rightarrow>
          (case listener st1 of
             None \<Rightarrow> Some st1
           | Some l \<Rightarrow> Some (Unlock (st1\<lparr>closed := closed st1 @ [l], listener := None\<rparr>))))"

section \<open>A stand-in upstream\<close>

text \<open>
  A stand-in for the library and for weather.gov, to run the handler on concrete requests:
  it parses the two coordinates of Kansas City, formats them, and decodes the few bodies
  below the way \<^verbatim>\<open>json.Unmarshal\<close> does (an object without the key "forecast" decodes to
  the empty endpoint).
\<close>

definition KCWeatherEndpoint :: string where
  "KCWeatherEndpoint = ''https://api.weather.gov/gridpoints/EAX/44,51/forecast''"

definition KCPointsBody :: string where
  \<open>KCPointsBody = ''{"forecast": "https://api.weather.gov/gridpoints/EAX/44,51/forecast"}''\<close>

definition SunnyBody :: string where
  \<open>SunnyBody = ''{"periods": [{"temperature": 72, "shortForecast": "Sunny"}]}''\<close>

definition NoPeriodsBody :: string where
  \<open>NoPeriodsBody = ''{"periods": []}''\<close>

definition mock_lib :: lib where
  "mock_lib =
     \<lparr>ParseFloat = (\<lambda>s. if s = ''39.0997'' then Inr (Num 39.0997)
                        else if s = ''-94.5786'' then Inr (Num (- 94.5786))
                        else Inl (Err ''invalid syntax'')),
      Sprintf_f = (\<lambda>x. if x = Num 39.0997 then ''39.099700'' else ''-94.578600''),
      NewRequestWithContext = (\<lambda>url. None),
      Unmarshal_points = (\<lambda>b. if b = ''{}'' then Inr []
                        else if b = KCPointsBody then Inr KCWeatherEndpoint
                        else Inl (Err ''unexpected end of JSON input'')),
      Unmarshal_forecast = (\<lambda>b. if b = NoPeriodsBody then Inr []
                        else if b = SunnyBody
                        then Inr [\<lparr>Temperature = Num 72, ShortForecast = ''Sunny''\<rparr>]
                        else Inl (Err ''unexpected end of JSON input''))\<rparr>"

text \<open>The stand-in client answers 200 with the one body at the points URL and the other at
  the forecast endpoint, and fails on any other URL.\<close>

definition mock_client :: "string \<Rightarrow> string \<Rightarrow> client" where
  "mock_client pointsBody forecastBody n ctx url =
     (if url = ''https://api.weather.gov/points/39.099700,-94.578600''
      then Inr \<lparr>StatusCode = 200, Body = Inr pointsBody\<rparr>
      else if url = KCWeatherEndpoint
      then Inr \<lparr>StatusCode = 200, Body = Inr forecastBody\<rparr>
      else Inl (Err ''unsupported protocol scheme''))"

text \<open>The request of the README: \<^verbatim>\<open>curl 'localhost:8080/weather?lat=39.0997&lon=-94.5786'\<close>
  with the Accept header given.\<close>

definition KCRequest :: "string list \<Rightarrow> request" where
  "KCRequest accept =
     \<lparr>Method = ''GET'', Path = ''/weather'', Header = [''Accept'' \<mapsto> accept],
      Query = [''lat'' \<mapsto> [''39.0997''], ''lon'' \<mapsto> [''-94.5786'']],
      Context = \<lparr>deadline = None\<rparr>\<rparr>"

text \<open>A GET to /weather that accepts text/plain, with the values given for \<open>lat\<close> and
  \<open>lon\<close> (the empty list for a parameter that is missing).\<close>

definition BadQueryRequest :: "string list \<Rightarrow> string list \<Rightarrow> request" where
  "BadQueryRequest lat lon =
     \<lparr>Method = ''GET'', Path = ''/weather'', Header = [''Accept'' \<mapsto> [''text/plain'']],
      Query = [''lat'' \<mapsto> lat, ''lon'' \<mapsto> lon], Context = \<lparr>deadline = None\<rparr>\<rparr>"

section \<open>Facts about the writer and the call log\<close>

lemma status_http_Error: "status w = None \<Longrightarrow> status (http_Error w msg code) = Some code"
  by (simp add: http_Error_def Write_def WriteHeader_def Let_def)

lemma body_http_Error: "body (http_Error w msg code) = body w @ msg @ [CHR 0x0A]"
  by (simp add: http_Error_def Write_def WriteHeader_def Let_def split: option.splits)

lemma httpGet_calls:
  "httpGet L ctx client url um calls = (res, calls') \<Longrightarrow>
     calls' = calls \<or> calls' = calls @ [(ctx, url)]"
  by (auto simp: httpGet_def Let_def split: option.splits sum.splits if_splits)

lemma forcastGrid_calls:
  "forcastGrid L ctx client lat lon calls = (res, calls') \<Longrightarrow>
     map fst calls' = map fst calls \<or> map fst calls' = map fst calls @ [ctx]"
  by (auto simp: forcastGrid_def split: prod.splits sum.splits dest: httpGet_calls)

lemma forecastGet_calls:
  "forecastGet L ctx client endpoint calls = (res, calls') \<Longrightarrow>
     map fst calls' = map fst calls \<or> map fst calls' = map fst calls @ [ctx]"
  by (auto simp: forecastGet_def index_def split: prod.splits sum.splits if_splits
      dest: httpGet_calls)

text \<open>The one indexing of the package is guarded by the length check before it: neither
  \<open>forecastGet\<close> nor the handler panics, whatever the upstream answers.\<close>

lemma forecastGet_no_panic: "fst (forecastGet L ctx client endpoint calls) \<noteq> Panics p"
  by (simp add: forecastGet_def index_def split: prod.splits sum.splits)

lemma forecastGet_returns: "forecastGet L ctx client endpoint calls \<noteq> (Panics p, calls')"
  using forecastGet_no_panic [of L ctx client endpoint calls p] by auto

lemma ServeHTTP_no_panic: "fst (ServeHTTP L s now w r) \<noteq> Panics p"
  by (auto simp: ServeHTTP_def Let_def forecastGet_returns
      split: prod.splits option.splits sum.splits outcome.splits)

lemma WithTimeout_deadline:
  "\<exists>d. deadline (WithTimeout parent now t) = Some d \<and> d \<le> now + t"
  by (simp add: WithTimeout_def split: option.splits)

lemma ServeHTTP_ctxs:
  "map fst (snd (ServeHTTP L s now w r)) \<in>
     {[], [WithTimeout (Context r) now (2 * Second)],
      [WithTimeout (Context r) now (2 * Second), WithTimeout (Context r) now (2 * Second)]}"
  by (auto simp: ServeHTTP_def Let_def
      split: prod.splits option.splits sum.splits outcome.splits
      dest!: forcastGrid_calls forecastGet_calls)

text \<open>\<open>forcastGrid\<close> hands on whatever the payload decoded to, the empty string included:
  it has no check of the field.\<close>

lemma forcastGrid_field:
  "httpGet L ctx client
     (''https://api.weather.gov/points/'' @ Sprintf_f L lat @ '','' @ Sprintf_f L lon)
     (Unmarshal_points L) calls = (Inr ep, calls')
   \<Longrightarrow> forcastGrid L ctx client lat lon calls = (Inr ep, calls')"
  by (simp add: forcastGrid_def)

section \<open>The stand-in upstream, evaluated\<close>

lemmas mock_defs = mock_lib_def mock_client_def KCRequest_def KCWeatherEndpoint_def
  KCPointsBody_def SunnyBody_def NoPeriodsBody_def

lemma mock_valid:
  "validRequest mock_lib NewWriter (KCRequest [''*/*''])
     = (NewWriter, Some (Num 39.0997, Num (- 94.5786)))"
  by (simp add: validRequest_def mock_defs Get_def acceptedTypes_def Let_def)

lemma mock_grid:
  "forcastGrid mock_lib ctx (mock_client KCPointsBody fb) (Num 39.0997) (Num (- 94.5786)) []
     = (Inr KCWeatherEndpoint, [(ctx, ''https://api.weather.gov/points/39.099700,-94.578600'')])"
  by (simp add: forcastGrid_def httpGet_def mock_defs Let_def)

lemma mock_fetch_sunny:
  "httpGet mock_lib ctx (mock_client pb SunnyBody) KCWeatherEndpoint (Unmarshal_forecast mock_lib)
     calls
     = (Inr [\<lparr>Temperature = Num 72, ShortForecast = ''Sunny''\<rparr>],
        calls @ [(ctx, KCWeatherEndpoint)])"
  by (simp add: httpGet_def mock_defs Let_def)

lemma mock_fetch_none:
  "httpGet mock_lib ctx (mock_client pb NoPeriodsBody) KCWeatherEndpoint
     (Unmarshal_forecast mock_lib) calls
     = (Inr [], calls @ [(ctx, KCWeatherEndpoint)])"
  by (simp add: httpGet_def mock_defs Let_def)

lemma Itoa_16: "Itoa 16 = ''16''"
  by (simp add: Itoa_def Itoa_nat.simps)

section \<open>The comfort category\<close>

text \<open>
  C1. For every float64 temperature \<open>t\<close>, \<open>tempratureAnalog\<close> returns "cold" when
  \<open>t < 40\<close>, "moderate" when \<open>40 \<le> t < 80\<close> and "hot" when \<open>t \<ge> 80\<close>; exactly 40 is
  "moderate" and exactly 80 is "hot". The comparisons are Go's, so a NaN is in none of the
  three bands.
\<close>

theorem tempratureAnalog_bands:
  "(flt t (Num 40) \<longrightarrow> tempratureAnalog t = ''cold'') \<and>
   (fle (Num 40) t \<and> flt t (Num 80) \<longrightarrow> tempratureAnalog t = ''moderate'') \<and>
   (fle (Num 80) t \<longrightarrow> tempratureAnalog t = ''hot'') \<and>
   tempratureAnalog (Num 40) = ''moderate'' \<and> tempratureAnalog (Num 80) = ''hot''"
  by (cases t) (simp_all add: tempratureAnalog_def)

theorem tempratureAnalog_bands_witness:
  "flt (Num (- 1398123.3)) (Num 40) \<and> tempratureAnalog (Num (- 1398123.3)) = ''cold'' \<and>
   fle (Num 40) (Num 79.999) \<and> flt (Num 79.999) (Num 80) \<and>
   tempratureAnalog (Num 79.999) = ''moderate'' \<and>
   fle (Num 80) (Num 100) \<and> tempratureAnalog (Num 100) = ''hot''"
  using tempratureAnalog_bands [of "Num (- 1398123.3)"] tempratureAnalog_bands [of "Num 79.999"]
    tempratureAnalog_bands [of "Num 100"]
  by simp

text \<open>
  C10. \<open>tempratureAnalog\<close> is total over float64 and returns one of the three strings
  "cold", "moderate", "hot"; a NaN, for which both comparisons are false, is "hot".
\<close>

theorem tempratureAnalog_total:
  "(tempratureAnalog t = ''cold'' \<or> tempratureAnalog t = ''moderate''
      \<or> tempratureAnalog t = ''hot'')
   \<and> tempratureAnalog NaN = ''hot''"
  by (simp add: tempratureAnalog_def)

section \<open>The Accept header\<close>

text \<open>
  C2. The claim: a GET to /weather whose Accept header is absent is accepted and goes on
  through the pipeline. The handler reads the absent header as the empty string, which is
  not a key of \<open>acceptedTypes\<close>: the Kansas City request without any header is answered 406,
  with the message "must accept text/plain", and no outbound call is made.
\<close>

theorem absent_accept_rejected:
  "ServeHTTP L s now NewWriter
     \<lparr>Method = ''GET'', Path = ''/weather'', Header = Map.empty,
      Query = [''lat'' \<mapsto> [''39.0997''], ''lon'' \<mapsto> [''-94.5786'']],
      Context = \<lparr>deadline = None\<rparr>\<rparr>
   = (Returns (http_Error NewWriter ''must accept text/plain'' 406), []) \<and>
   status (http_Error NewWriter ''must accept text/plain'' 406) = Some 406"
  by (simp add: ServeHTTP_def validRequest_def Get_def acceptedTypes_def StatusNotAcceptable_def
      status_http_Error NewWriter_def Let_def)

text \<open>
  C9. The check of the Accept header is equality with one of the three strings "*/*",
  "text/*" and "text/plain": a value is a key of \<open>acceptedTypes\<close> exactly when it is one of
  them. A request whose Accept value is any other string, a parameterised or composite one
  such as "text/plain; charset=utf-8" or "text/plain, */*" included, is rejected; when it is
  a GET to /weather, so that it reaches the check, the answer is 406 and no outbound call
  is made.
\<close>

theorem accept_exact_match:
  "(acceptedTypes a = None \<longleftrightarrow> a \<notin> {''*/*'', ''text/*'', ''text/plain''}) \<and>
   (Get (Header r) ''Accept'' \<notin> {''*/*'', ''text/*'', ''text/plain''} \<longrightarrow>
      snd (validRequest L w r) = None \<and>
      (Method r = ''GET'' \<and> Path r = ''/weather'' \<longrightarrow>
         ServeHTTP L s now NewWriter r
           = (Returns (http_Error NewWriter ''must accept text/plain'' 406), []) \<and>
         status (http_Error NewWriter ''must accept text/plain'' 406) = Some 406))"
  by (auto simp: acceptedTypes_def ServeHTTP_def validRequest_def Let_def
      StatusNotAcceptable_def status_http_Error NewWriter_def)

theorem accept_exact_match_witness:
  "Get (Header (KCRequest [''text/plain; charset=utf-8''])) ''Accept''
     \<notin> {''*/*'', ''text/*'', ''text/plain''} \<and>
   Get (Header (KCRequest [''text/plain, */*''])) ''Accept''
     \<notin> {''*/*'', ''text/*'', ''text/plain''} \<and>
   Method (KCRequest [''text/plain, */*'']) = ''GET'' \<and>
   Path (KCRequest [''text/plain, */*'']) = ''/weather'' \<and>
   (case fst (ServeHTTP mock_lib \<lparr>Client = mock_client KCPointsBody SunnyBody\<rparr> 5 NewWriter
                (KCRequest [''text/plain; charset=utf-8''])) of
      Returns w \<Rightarrow> status w = Some 406 | Panics p \<Rightarrow> False) \<and>
   (case fst (ServeHTTP mock_lib \<lparr>Client = mock_client KCPointsBody SunnyBody\<rparr> 5 NewWriter
                (KCRequest [''text/plain, */*''])) of
      Returns w \<Rightarrow> status w = Some 406 | Panics p \<Rightarrow> False)"
  using accept_exact_match [of "''x''" "KCRequest [''text/plain; charset=utf-8'']" mock_lib NewWriter
      "\<lparr>Client = mock_client KCPointsBody SunnyBody\<rparr>" 5]
    accept_exact_match [of "''x''" "KCRequest [''text/plain, */*'']" mock_lib NewWriter
      "\<lparr>Client = mock_client KCPointsBody SunnyBody\<rparr>" 5]
  by (simp add: KCRequest_def Get_def)

section \<open>The query parameters\<close>

text \<open>
  C7. For a GET to /weather with an accepted Accept header: when \<open>lat\<close> or \<open>lon\<close> is
  missing (its value reads as the empty string) the answer is 400; when both are given and
  one of them does not parse as a number the answer is 400 and the body carries the text of
  the parse error; in both cases the request makes no outbound call.
\<close>

theorem bad_query_rejected:
  assumes m: "Method r = ''GET''" and p: "Path r = ''/weather''"
    and a: "acceptedTypes (Get (Header r) ''Accept'') \<noteq> None"
  shows
   "(Get (Query r) ''lat'' = [] \<or> Get (Query r) ''lon'' = [] \<longrightarrow>
       ServeHTTP L s now NewWriter r
         = (Returns (http_Error NewWriter ''query params 'lat' and 'lon' are required'' 400), []))
    \<and> (Get (Query r) ''lat'' \<noteq> [] \<and> Get (Query r) ''lon'' \<noteq> [] \<and>
        ParseFloat L (Get (Query r) ''lat'') = Inl e \<longrightarrow>
       ServeHTTP L s now NewWriter r
         = (Returns (http_Error NewWriter (''invalid 'lat' query param: '' @ Error e) 400), []))
    \<and> (Get (Query r) ''lat'' \<noteq> [] \<and> Get (Query r) ''lon'' \<noteq> [] \<and>
        ParseFloat L (Get (Query r) ''lat'') = Inr x \<and>
        ParseFloat L (Get (Query r) ''lon'') = Inl e \<longrightarrow>
       ServeHTTP L s now NewWriter r
         = (Returns (http_Error NewWriter (''invalid 'lon' query param: '' @ Error e) 400), []))
    \<and> status (http_Error NewWriter msg 400) = Some 400
    \<and> body (http_Error NewWriter msg 400) = msg @ [CHR 0x0A]"
  using m p a
  by (auto simp: ServeHTTP_def validRequest_def Let_def StatusBadRequest_def
      status_http_Error body_http_Error NewWriter_def)

theorem bad_query_rejected_witness:
  "Method (BadQueryRequest [''39.0997''] []) = ''GET'' \<and>
   Path (BadQueryRequest [''39.0997''] []) = ''/weather'' \<and>
   acceptedTypes (Get (Header (BadQueryRequest [''39.0997''] [])) ''Accept'') \<noteq> None \<and>
   Get (Query (BadQueryRequest [''39.0997''] [])) ''lon'' = [] \<and>
   ServeHTTP mock_lib \<lparr>Client = mock_client KCPointsBody SunnyBody\<rparr> 5 NewWriter
     (BadQueryRequest [''39.0997''] [])
     = (Returns (http_Error NewWriter ''query params 'lat' and 'lon' are required'' 400), []) \<and>
   ParseFloat mock_lib (Get (Query (BadQueryRequest [''abc''] [''-94.5786''])) ''lat'')
     = Inl (Err ''invalid syntax'') \<and>
   ServeHTTP mock_lib \<lparr>Client = mock_client KCPointsBody SunnyBody\<rparr> 5 NewWriter
     (BadQueryRequest [''abc''] [''-94.5786''])
     = (Returns (http_Error NewWriter ''invalid 'lat' query param: invalid syntax'' 400), []) \<and>
   ParseFloat mock_lib (Get (Query (BadQueryRequest [''39.0997''] [''xyz''])) ''lon'')
     = Inl (Err ''invalid syntax'') \<and>
   ServeHTTP mock_lib \<lparr>Client = mock_client KCPointsBody SunnyBody\<rparr> 5 NewWriter
     (BadQueryRequest [''39.0997''] [''xyz''])
     = (Returns (http_Error NewWriter ''invalid 'lon' query param: invalid syntax'' 400), [])"
proof -
  let ?s = "\<lparr>Client = mock_client KCPointsBody SunnyBody\<rparr>"
  have h: "Method (BadQueryRequest lat lon) = ''GET''"
    "Path (BadQueryRequest lat lon) = ''/weather''"
    "acceptedTypes (Get (Header (BadQueryRequest lat lon)) ''Accept'') \<noteq> None" for lat lon
    by (simp_all add: BadQueryRequest_def Get_def acceptedTypes_def)
  have q: "Get (Query (BadQueryRequest [a] [b])) ''lat'' = a"
    "Get (Query (BadQueryRequest [a] [b])) ''lon'' = b"
    "Get (Query (BadQueryRequest [a] [])) ''lon'' = []" 
    "Get (Query (BadQueryRequest [a] [])) ''lat'' = a" for a b
    by (simp_all add: BadQueryRequest_def Get_def)
  have pf: "ParseFloat mock_lib ''abc'' = Inl (Err ''invalid syntax'')"
    "ParseFloat mock_lib ''xyz'' = Inl (Err ''invalid syntax'')"
    "ParseFloat mock_lib ''39.0997'' = Inr (Num 39.0997)"
    by (simp_all add: mock_lib_def)
  show ?thesis
    using bad_query_rejected [OF h, of "[''39.0997'']" "[]" mock_lib ?s 5 "Err ''invalid syntax''"
        "Num 39.0997" "''x''"]
      bad_query_rejected [OF h, of "[''abc'']" "[''-94.5786'']" mock_lib ?s 5
        "Err ''invalid syntax''" "Num 39.0997" "''x''"]
      bad_query_rejected [OF h, of "[''39.0997'']" "[''xyz'']" mock_lib ?s 5
        "Err ''invalid syntax''" "Num 39.0997" "''x''"]
    by (simp add: h q pf)
qed

section \<open>The two resolver steps\<close>

text \<open>
  C3. The claim: \<open>forcastGrid\<close> fails whenever the "forecast" field of the decoded points
  payload is absent or empty. On a 200 answer whose body is the empty object, the field
  decodes to the empty string and \<open>forcastGrid\<close> returns it as the endpoint, with no error.
\<close>

theorem forcastGrid_empty_endpoint:
  "forcastGrid mock_lib ctx (mock_client ''{}'' []) (Num 39.0997) (Num (- 94.5786)) []
   = (Inr [], [(ctx, ''https://api.weather.gov/points/39.099700,-94.578600'')])"
  by (simp add: forcastGrid_def httpGet_def mock_lib_def mock_client_def Let_def)

text \<open>
  C4. When the forecast payload decodes to an empty \<open>periods\<close> sequence, \<open>forecastGet\<close>
  returns the error "no periods found" (it returns: no element is read, there is no panic),
  and the handler answers 500 with that message.
\<close>

theorem empty_periods_no_data:
  assumes v: "validRequest L NewWriter r = (w, Some (lat, lon))"
    and g: "forcastGrid L (WithTimeout (Context r) now (2 * Second)) (Client s) lat lon []
              = (Inr ep, c1)"
    and f: "httpGet L (WithTimeout (Context r) now (2 * Second)) (Client s) ep
              (Unmarshal_forecast L) c1 = (Inr [], c2)"
  shows "forecastGet L (WithTimeout (Context r) now (2 * Second)) (Client s) ep c1
           = (Returns (Inl (Err ''no periods found'')), c2)
       \<and> ServeHTTP L s now NewWriter r
           = (Returns (http_Error NewWriter
                ''failed to fetch weather.gov forecast/temprature: no periods found'' 500), c2)
       \<and> status (http_Error NewWriter
                ''failed to fetch weather.gov forecast/temprature: no periods found'' 500)
           = Some 500"
proof -
  have fg: "forecastGet L (WithTimeout (Context r) now (2 * Second)) (Client s) ep c1
           = (Returns (Inl (Err ''no periods found'')), c2)"
    using f by (simp add: forecastGet_def)
  have w: "w = NewWriter"
    using v by (auto simp: validRequest_def Let_def split: if_splits sum.splits)
  have "ServeHTTP L s now NewWriter r
           = (Returns (http_Error NewWriter
                ''failed to fetch weather.gov forecast/temprature: no periods found'' 500), c2)"
    using v g fg w by (simp add: ServeHTTP_def Let_def StatusInternalServerError_def)
  moreover have "status (http_Error NewWriter
                ''failed to fetch weather.gov forecast/temprature: no periods found'' 500)
           = Some 500"
    by (simp add: status_http_Error NewWriter_def)
  ultimately show ?thesis using fg by simp
qed

theorem empty_periods_no_data_witness:
  "validRequest mock_lib NewWriter (KCRequest [''*/*''])
     = (NewWriter, Some (Num 39.0997, Num (- 94.5786))) \<and>
   forcastGrid mock_lib (WithTimeout (Context (KCRequest [''*/*''])) 5 (2 * Second))
     (Client \<lparr>Client = mock_client KCPointsBody NoPeriodsBody\<rparr>) (Num 39.0997) (Num (- 94.5786)) []
     = (Inr KCWeatherEndpoint,
        [(\<lparr>deadline = Some 2000000005\<rparr>, ''https://api.weather.gov/points/39.099700,-94.578600'')]) \<and>
   httpGet mock_lib (WithTimeout (Context (KCRequest [''*/*''])) 5 (2 * Second))
     (Client \<lparr>Client = mock_client KCPointsBody NoPeriodsBody\<rparr>) KCWeatherEndpoint
     (Unmarshal_forecast mock_lib)
     [(\<lparr>deadline = Some 2000000005\<rparr>, ''https://api.weather.gov/points/39.099700,-94.578600'')]
     = (Inr [],
        [(\<lparr>deadline = Some 2000000005\<rparr>, ''https://api.weather.gov/points/39.099700,-94.578600''),
         (\<lparr>deadline = Some 2000000005\<rparr>, KCWeatherEndpoint)]) \<and>
   (case fst (ServeHTTP mock_lib \<lparr>Client = mock_client KCPointsBody NoPeriodsBody\<rparr> 5 NewWriter
                (KCRequest [''*/*''])) of
      Returns w \<Rightarrow> status w = Some 500 \<and>
        body w = ''failed to fetch weather.gov forecast/temprature: no periods found'' @ [CHR 0x0A]
    | Panics p \<Rightarrow> False)"
proof -
  let ?ctx = "WithTimeout (Context (KCRequest [''*/*''])) 5 (2 * Second)"
  let ?s = "\<lparr>Client = mock_client KCPointsBody NoPeriodsBody\<rparr>"
  have c: "?ctx = \<lparr>deadline = Some 2000000005\<rparr>"
    by (simp add: WithTimeout_def KCRequest_def Second_def)
  have v: "validRequest mock_lib NewWriter (KCRequest [''*/*''])
     = (NewWriter, Some (Num 39.0997, Num (- 94.5786)))"
    by (rule mock_valid)
  have g: "forcastGrid mock_lib ?ctx (Client ?s) (Num 39.0997) (Num (- 94.5786)) []
     = (Inr KCWeatherEndpoint, [(?ctx, ''https://api.weather.gov/points/39.099700,-94.578600'')])"
    using mock_grid [of ?ctx NoPeriodsBody] by simp
  have f: "httpGet mock_lib ?ctx (Client ?s) KCWeatherEndpoint (Unmarshal_forecast mock_lib)
     [(?ctx, ''https://api.weather.gov/points/39.099700,-94.578600'')]
     = (Inr [], [(?ctx, ''https://api.weather.gov/points/39.099700,-94.578600''),
                 (?ctx, KCWeatherEndpoint)])"
    using mock_fetch_none [of ?ctx KCPointsBody] by simp
  show ?thesis
    using empty_periods_no_data [OF v g f] v g f
    by (simp add: c body_http_Error NewWriter_def)
qed

section \<open>The rendered response\<close>

text \<open>
  C6. When the request is valid and both resolver steps succeed, the first period having
  the short forecast \<open>d\<close> and the temperature \<open>t\<close>, the handler answers 200 with the body
  \<open>d\<close>, ", ", the category of \<open>t\<close> and a newline, the content type text/plain and a
  Content-Length that is the decimal of the byte length of that body.
\<close>

theorem rendered_body:
  assumes v: "validRequest L NewWriter r = (w, Some (lat, lon))"
    and g: "forcastGrid L (WithTimeout (Context r) now (2 * Second)) (Client s) lat lon []
              = (Inr ep, c1)"
    and f: "httpGet L (WithTimeout (Context r) now (2 * Second)) (Client s) ep
              (Unmarshal_forecast L) c1 = (Inr (p # ps), c2)"
  shows "ServeHTTP L s now NewWriter r
           = (Returns
               \<lparr>status = Some 200,
                headers = [''Content-Type'' \<mapsto> ''text/plain'',
                           ''Content-Length'' \<mapsto>
                             Itoa (int (length (ShortForecast p @ '', ''
                               @ tempratureAnalog (Temperature p) @ [CHR 0x0A])))],
                body = ShortForecast p @ '', '' @ tempratureAnalog (Temperature p) @ [CHR 0x0A]\<rparr>,
              c2)"
proof -
  have fg: "forecastGet L (WithTimeout (Context r) now (2 * Second)) (Client s) ep c1
           = (Returns (Inr (ShortForecast p, tempratureAnalog (Temperature p))), c2)"
    using f by (simp add: forecastGet_def index_def)
  have w: "w = NewWriter"
    using v by (auto simp: validRequest_def Let_def split: if_splits sum.splits)
  show ?thesis
    using v g fg w
    by (simp add: ServeHTTP_def Let_def Write_def WriteHeader_def NewWriter_def)
qed

theorem rendered_body_witness:
  "validRequest mock_lib NewWriter (KCRequest [''*/*''])
     = (NewWriter, Some (Num 39.0997, Num (- 94.5786))) \<and>
   forcastGrid mock_lib (WithTimeout (Context (KCRequest [''*/*''])) 5 (2 * Second))
     (Client \<lparr>Client = mock_client KCPointsBody SunnyBody\<rparr>) (Num 39.0997) (Num (- 94.5786)) []
     = (Inr KCWeatherEndpoint,
        [(\<lparr>deadline = Some 2000000005\<rparr>, ''https://api.weather.gov/points/39.099700,-94.578600'')]) \<and>
   httpGet mock_lib (WithTimeout (Context (KCRequest [''*/*''])) 5 (2 * Second))
     (Client \<lparr>Client = mock_client KCPointsBody SunnyBody\<rparr>) KCWeatherEndpoint
     (Unmarshal_forecast mock_lib)
     [(\<lparr>deadline = Some 2000000005\<rparr>, ''https://api.weather.gov/points/39.099700,-94.578600'')]
     = (Inr [\<lparr>Temperature = Num 72, ShortForecast = ''Sunny''\<rparr>],
        [(\<lparr>deadline = Some 2000000005\<rparr>, ''https://api.weather.gov/points/39.099700,-94.578600''),
         (\<lparr>deadline = Some 2000000005\<rparr>, KCWeatherEndpoint)]) \<and>
   fst (ServeHTTP mock_lib \<lparr>Client = mock_client KCPointsBody SunnyBody\<rparr> 5 NewWriter
          (KCRequest [''*/*'']))
     = Returns \<lparr>status = Some 200,
                headers = [''Content-Type'' \<mapsto> ''text/plain'', ''Content-Length'' \<mapsto> ''16''],
                body = ''Sunny, moderate'' @ [CHR 0x0A]\<rparr>"
proof -
  let ?ctx = "WithTimeout (Context (KCRequest [''*/*''])) 5 (2 * Second)"
  let ?s = "\<lparr>Client = mock_client KCPointsBody SunnyBody\<rparr>"
  have c: "?ctx = \<lparr>deadline = Some 2000000005\<rparr>"
    by (simp add: WithTimeout_def KCRequest_def Second_def)
  have v: "validRequest mock_lib NewWriter (KCRequest [''*/*''])
     = (NewWriter, Some (Num 39.0997, Num (- 94.5786)))"
    by (rule mock_valid)
  have g: "forcastGrid mock_lib ?ctx (Client ?s) (Num 39.0997) (Num (- 94.5786)) []
     = (Inr KCWeatherEndpoint, [(?ctx, ''https://api.weather.gov/points/39.099700,-94.578600'')])"
    using mock_grid [of ?ctx SunnyBody] by simp
  have f: "httpGet mock_lib ?ctx (Client ?s) KCWeatherEndpoint (Unmarshal_forecast mock_lib)
     [(?ctx, ''https://api.weather.gov/points/39.099700,-94.578600'')]
     = (Inr [\<lparr>Temperature = Num 72, ShortForecast = ''Sunny''\<rparr>],
        [(?ctx, ''https://api.weather.gov/points/39.099700,-94.578600''),
         (?ctx, KCWeatherEndpoint)])"
    using mock_fetch_sunny [of ?ctx KCPointsBody] by simp
  show ?thesis
    using rendered_body [OF v g f] v g f
    by (simp add: c tempratureAnalog_def Itoa_16)
qed

section \<open>The deadline\<close>

text \<open>
  C5. Within one request the handler derives one context, from the request's context with
  the fixed timeout of two seconds, before anything else; every outbound call of the request
  (at most two: \<open>forcastGrid\<close>'s, then \<open>forecastGet\<close>'s) carries that same context, whose
  deadline is at most two seconds after the handler began. No other deadline is set
  between the two steps.
\<close>

theorem one_shared_deadline:
  "map fst (snd (ServeHTTP L s now w r))
     = replicate (length (snd (ServeHTTP L s now w r))) (WithTimeout (Context r) now (2 * Second))
   \<and> length (snd (ServeHTTP L s now w r)) \<le> 2
   \<and> (\<exists>d. deadline (WithTimeout (Context r) now (2 * Second)) = Some d \<and> d \<le> now + 2 * Second)"
proof -
  have "length (snd (ServeHTTP L s now w r)) = length (map fst (snd (ServeHTTP L s now w r)))"
    by simp
  with ServeHTTP_ctxs [of L s now w r] WithTimeout_deadline [of "Context r" now "2 * Second"]
  show ?thesis by auto
qed

theorem one_shared_deadline_witness:
  "snd (ServeHTTP mock_lib \<lparr>Client = mock_client KCPointsBody SunnyBody\<rparr> 5 NewWriter
          (KCRequest [''*/*'']))
     = [(\<lparr>deadline = Some 2000000005\<rparr>, ''https://api.weather.gov/points/39.099700,-94.578600''),
        (\<lparr>deadline = Some 2000000005\<rparr>, KCWeatherEndpoint)] \<and>
   map fst (snd (ServeHTTP mock_lib \<lparr>Client = mock_client KCPointsBody SunnyBody\<rparr> 5 NewWriter
          (KCRequest [''*/*'']))) = [\<lparr>deadline = Some 2000000005\<rparr>, \<lparr>deadline = Some 2000000005\<rparr>]"
proof -
  let ?r = "KCRequest [''*/*'']"
  let ?ctx = "WithTimeout (Context ?r) 5 (2 * Second)"
  let ?s = "\<lparr>Client = mock_client KCPointsBody SunnyBody\<rparr>"
  have c: "?ctx = \<lparr>deadline = Some 2000000005\<rparr>"
    by (simp add: WithTimeout_def KCRequest_def Second_def)
  have g: "forcastGrid mock_lib ?ctx (Client ?s) (Num 39.0997) (Num (- 94.5786)) []
     = (Inr KCWeatherEndpoint, [(?ctx, ''https://api.weather.gov/points/39.099700,-94.578600'')])"
    using mock_grid [of ?ctx SunnyBody] by simp
  have f: "forecastGet mock_lib ?ctx (Client ?s) KCWeatherEndpoint
     [(?ctx, ''https://api.weather.gov/points/39.099700,-94.578600'')]
     = (Returns (Inr (''Sunny'', ''moderate'')),
        [(?ctx, ''https://api.weather.gov/points/39.099700,-94.578600''),
         (?ctx, KCWeatherEndpoint)])"
    using mock_fetch_sunny [of ?ctx KCPointsBody]
    by (simp add: forecastGet_def index_def tempratureAnalog_def)
  have l: "snd (ServeHTTP mock_lib ?s 5 NewWriter ?r)
     = [(?ctx, ''https://api.weather.gov/points/39.099700,-94.578600''), (?ctx, KCWeatherEndpoint)]"
    using mock_valid g f by (simp add: ServeHTTP_def Let_def)
  show ?thesis
    using one_shared_deadline [of mock_lib ?s 5 NewWriter ?r] l
    by (simp add: c)
qed

section \<open>The lifecycle of the listener\<close>

text \<open>
  C8. The claim: \<open>stopServer\<close> with no listener leaves the lifecycle state as it was, the
  mutex released. It takes the mutex and returns on the nil check without releasing it:
  the state after the call has the mutex held, and the next \<open>stopServer\<close> blocks in \<open>Lock\<close>.
\<close>

theorem stopServer_not_started:
  "stopServer \<lparr>listener = None, listnerMutext = False, closed = []\<rparr>
     = Some \<lparr>listener = None, listnerMutext = True, closed = []\<rparr> \<and>
   stopServer \<lparr>listener = None, listnerMutext = True, closed = []\<rparr> = None"
  by (simp add: stopServer_def Lock_def Unlock_def)

end
